theory Spec2Isabelle
  imports Main "HOL-Library.Word"
begin

section \<open>Go values the plugin works with\<close>

text \<open>
  The plugin of \<^verbatim>\<open>internal/plugin/volumesnapshotterplugin.go\<close> is embedded with
  explicit state passing. A Go run-time panic is a value (\<open>Panics\<close>), a Go \<^verbatim>\<open>error\<close>
  is a value of the datatype \<open>error\<close>, and the unbounded retry loop of
  \<^verbatim>\<open>CreateSnapshot\<close> is a partial function whose value \<open>None\<close> means that the
  loop never exits. Calls of the embedded logger (\<^verbatim>\<open>p.Infof\<close>, \<^verbatim>\<open>p.Errorf\<close>) change
  nothing that is modelled; the evaluation of their arguments is kept where it can panic.
\<close>

datatype panic = NilMapAssignment | NilPointerDereference

datatype 'a result = Panics panic | Returns 'a

text \<open>
  Error values: \<open>External\<close> is an error produced by a library outside the repository
  (the API client, the unstructured converter, the cluster configuration); the other
  constructors are the constructors of \<^verbatim>\<open>github.com/pkg/errors\<close> the source calls.
\<close>

datatype error =
    External string
  | New string
  | Errorf string
  | WithStack error
  | Wrap error string

text \<open>
  A Go map is a reference that may be nil: \<open>None\<close> is the nil map. Reading a nil map
  finds nothing; assigning into it panics.
\<close>

type_synonym ('k, 'v) gomap = "('k \<rightharpoonup> 'v) option"

definition mapIndex :: "('k, 'v) gomap \<Rightarrow> 'k \<Rightarrow> 'v option" where
  "mapIndex m k = (case m of None \<Rightarrow> None | Some f \<Rightarrow> f k)"

definition mapAssign :: "('k, 'v) gomap \<Rightarrow> 'k \<Rightarrow> 'v \<Rightarrow> ('k, 'v) gomap option" where
  "mapAssign m k v = (case m of None \<Rightarrow> None | Some f \<Rightarrow> Some (Some (f(k \<mapsto> v))))"

text \<open>
  Modelled from the spec: \<^verbatim>\<open>resource.Quantity\<close> is a type of the Kubernetes library;
  the spec describes a capacity as a quantity (amount + unit). \<open>zeroQuantity\<close> is its Go
  zero value.
\<close>

datatype Quantity = Quantity (amount: int) (qunit: string)

definition zeroQuantity :: Quantity where
  "zeroQuantity = Quantity 0 []"

section \<open>The data model of the source\<close>

text \<open>\<^verbatim>\<open>type Volume struct\<close>; the field \<^verbatim>\<open>size\<close> is \<open>volSize\<close> here.\<close>

record Volume =
  volName :: string
  volAZ :: string
  storageClass :: string
  dataEngine :: string
  volSize :: Quantity

text \<open>
  \<^verbatim>\<open>type Snapshot struct\<close>; its fields \<^verbatim>\<open>volName\<close> and \<^verbatim>\<open>volAZ\<close> are
  \<open>snapVolName\<close> and \<open>snapVolAZ\<close> here.
\<close>

record Snapshot =
  snapVolName :: string
  snapVolAZ :: string
  tags :: "(string, string) gomap"

text \<open>
  The client handles. Each remembers the cluster configuration it was built from; a nil
  pointer is \<open>None\<close> in the plugin's state.
\<close>

type_synonym RestConfig = string

datatype K8sClientset = K8sClientset RestConfig

datatype LhClientset = LhClientset RestConfig

text \<open>
  \<^verbatim>\<open>type VolumeSnapshotter struct\<close>. The maps of the source hold pointers to records
  that are allocated at the insertion and never written again, so the model stores the
  records themselves.
\<close>

record VolumeSnapshotter =
  config :: "(string, string) gomap"
  volumes :: "(string, Volume) gomap"
  snapshots :: "(string, Snapshot) gomap"
  k8sClient :: "K8sClientset option"
  lhClient :: "LhClientset option"

text \<open>
  The Longhorn snapshot resource that \<^verbatim>\<open>CreateSnapshot\<close> builds: \<^verbatim>\<open>ObjectMeta.Name\<close>,
  \<^verbatim>\<open>Spec.Volume\<close> and \<^verbatim>\<open>Spec.CreateSnapshot\<close>.
\<close>

record LonghornSnapshot =
  metaName :: string
  specVolume :: string
  specCreateSnapshot :: bool

text \<open>
  The world an operation runs in: the plugin's own state, and the external control plane
  as the plugin sees it, which is the sequence of create requests (namespace and resource)
  issued so far.
\<close>

record World =
  plugin :: VolumeSnapshotter
  longhorn :: "(string \<times> LonghornSnapshot) list"

text \<open>
  The structured volume descriptor \<^verbatim>\<open>v1.PersistentVolume\<close>, with the three fields the
  source reads (\<^verbatim>\<open>pv.Name\<close>, \<^verbatim>\<open>pv.Spec.StorageClassName\<close>, \<^verbatim>\<open>pv.Spec.Capacity\<close>); every
  other field of the Kubernetes type lives in the record's extension.
\<close>

record PersistentVolume =
  Name :: string
  SpecStorageClassName :: string
  SpecCapacity :: "(string, Quantity) gomap"

text \<open>
  \<^verbatim>\<open>runtime.DefaultUnstructuredConverter\<close> belongs to the Kubernetes library: its two
  functions are parameters of the model. \<open>'u\<close> is the type of unstructured descriptors.
\<close>

record ('u, 'm) Converter =
  FromUnstructured :: "'u \<Rightarrow> error + 'm PersistentVolume_scheme"
  ToUnstructured :: "'m PersistentVolume_scheme \<Rightarrow> error + 'u"

section \<open>Construction and initialisation\<close>

text \<open>\<^verbatim>\<open>NewVolumeSnapshotter\<close>: every field but the logger has its zero value.\<close>

definition NewVolumeSnapshotter :: VolumeSnapshotter where
  "NewVolumeSnapshotter =
     \<lparr>config = None, volumes = None, snapshots = None, k8sClient = None, lhClient = None\<rparr>"

text \<open>
  What \<^verbatim>\<open>Init\<close> asks of its environment: \<^verbatim>\<open>rest.InClusterConfig()\<close>,
  \<^verbatim>\<open>kubernetes.NewForConfig\<close> and \<^verbatim>\<open>lhclientset.NewForConfig\<close>.
\<close>

record InitEnv =
  inClusterConfig :: "error + RestConfig"
  k8sNewForConfig :: "RestConfig \<Rightarrow> error + K8sClientset"
  lhNewForConfig :: "RestConfig \<Rightarrow> error + LhClientset"

definition Init :: "InitEnv \<Rightarrow> World \<Rightarrow> (string, string) gomap \<Rightarrow> World \<times> error option" where
  "Init env w cfg =
     (let p0 = (plugin w)\<lparr>config := cfg\<rparr>;
          p1 = (if volumes p0 = None then p0\<lparr>volumes := Some Map.empty\<rparr> else p0);
          p2 = (if snapshots p1 = None then p1\<lparr>snapshots := Some Map.empty\<rparr> else p1)
      in case inClusterConfig env of
           Inl err \<Rightarrow> (w\<lparr>plugin := p2\<rparr>, Some (New ''error fetching cluster config''))
         | Inr conf \<Rightarrow>
             (case k8sNewForConfig env conf of
                Inl err \<Rightarrow> (w\<lparr>plugin := p2\<rparr>, Some (Wrap err ''failed to create k8s client''))
              | Inr k8sClientset \<Rightarrow>
                  (let p3 = p2\<lparr>k8sClient := Some k8sClientset\<rparr>
                   in case lhNewForConfig env conf of
                        Inl err \<Rightarrow>
                          (w\<lparr>plugin := p3\<rparr>, Some (Wrap err ''failed to create longhorn client''))
                      | Inr lhc \<Rightarrow> (w\<lparr>plugin := p3\<lparr>lhClient := Some lhc\<rparr>\<rparr>, None))))"

section \<open>The stub operations\<close>

text \<open>
  \<^verbatim>\<open>CreateVolumeFromSnapshot\<close>: the argument list of the log call holds \<^verbatim>\<open>*iops\<close>, which
  is evaluated before anything else happens.
\<close>

definition CreateVolumeFromSnapshot ::
  "World \<Rightarrow> string \<Rightarrow> string \<Rightarrow> string \<Rightarrow> 64 word option \<Rightarrow> World \<times> (string \<times> error option) result"
where
  "CreateVolumeFromSnapshot w snapshotID volumeType volumeAZ iops =
     (case iops of
        None \<Rightarrow> (w, Panics NilPointerDereference)
      | Some i \<Rightarrow> (let volumeID = [] in (w, Returns (volumeID, None))))"

definition GetVolumeInfo ::
  "World \<Rightarrow> string \<Rightarrow> string \<Rightarrow> World \<times> (string \<times> 64 word option \<times> error option) result"
where
  "GetVolumeInfo w volumeID volumeAZ = (w, Returns (''longhorn-volume'', None, None))"

definition IsVolumeReady ::
  "World \<Rightarrow> string \<Rightarrow> string \<Rightarrow> World \<times> (bool \<times> error option) result"
where
  "IsVolumeReady w volumeID volumeAZ = (w, Returns (True, None))"

definition DeleteSnapshot :: "World \<Rightarrow> string \<Rightarrow> World \<times> error option result" where
  "DeleteSnapshot w snapshotID = (w, Returns None)"

section \<open>Creating a snapshot\<close>

text \<open>
  The retry loop of \<^verbatim>\<open>CreateSnapshot\<close>. \<^verbatim>\<open>bsutil.GenerateName\<close> is a random generator of
  a library outside the repository: \<open>gen i\<close> is what its \<open>i\<close>-th call in this run of the
  loop returns. The loop has no bound, so the function is partial: \<open>None\<close> is the run in
  which every candidate is taken.
\<close>

partial_function (option) genSnapshotID ::
  "(string, Snapshot) gomap \<Rightarrow> (nat \<Rightarrow> string) \<Rightarrow> nat \<Rightarrow> string option"
where
  "genSnapshotID snaps gen i =
     (if mapIndex snaps (''velero-'' @ gen i) \<noteq> None
      then genSnapshotID snaps gen (Suc i)
      else Some (''velero-'' @ gen i))"

text \<open>
  The part of \<^verbatim>\<open>CreateSnapshot\<close> that works on the plugin's own maps, after the loop
  has chosen \<open>snapshotID\<close>: remember the volume if it is not known, remember the snapshot,
  build the resource to send.
\<close>

definition CreateSnapshot_remember ::
  "World \<Rightarrow> string \<Rightarrow> string \<Rightarrow> (string, string) gomap \<Rightarrow> string \<Rightarrow> World \<times> LonghornSnapshot result"
where
  "CreateSnapshot_remember w volumeID volumeAZ tgs snapshotID =
     (let p = plugin w
      in case (if mapIndex (volumes p) volumeID = None
               then mapAssign (volumes p) volumeID
                      \<lparr>volName = volumeID, volAZ = volumeAZ, storageClass = [],
                       dataEngine = ''v1'', volSize = zeroQuantity\<rparr>
               else Some (volumes p)) of
           None \<Rightarrow> (w, Panics NilMapAssignment)
         | Some vols \<Rightarrow>
             (let p1 = p\<lparr>volumes := vols\<rparr>
              in case mapAssign (snapshots p1) snapshotID
                        \<lparr>snapVolName = volumeID, snapVolAZ = volumeAZ, tags = tgs\<rparr> of
                   None \<Rightarrow> (w\<lparr>plugin := p1\<rparr>, Panics NilMapAssignment)
                 | Some snaps \<Rightarrow>
                     (w\<lparr>plugin := p1\<lparr>snapshots := snaps\<rparr>\<rparr>,
                      Returns \<lparr>metaName = snapshotID, specVolume = volumeID,
                               specCreateSnapshot = True\<rparr>)))"

text \<open>
  The call of the control plane that ends \<^verbatim>\<open>CreateSnapshot\<close>. A nil client panics
  when the call reads through it. \<open>createErr\<close> is the error the control plane answers
  this request with (\<open>None\<close> is Go's nil error); the request itself is appended to what
  the control plane has received.
\<close>

definition CreateSnapshot_call ::
  "World \<Rightarrow> string \<Rightarrow> LonghornSnapshot \<Rightarrow> error option \<Rightarrow> World \<times> (string \<times> error option) result"
where
  "CreateSnapshot_call w snapshotID snapshotCR createErr =
     (case lhClient (plugin w) of
        None \<Rightarrow> (w, Panics NilPointerDereference)
      | Some c \<Rightarrow>
          (let w' = w\<lparr>longhorn := longhorn w @ [(''longhorn-system'', snapshotCR)]\<rparr>
           in case createErr of
                Some err \<Rightarrow> (w', Returns ([], Some err))
              | None \<Rightarrow> (w', Returns (snapshotID, None))))"

definition CreateSnapshot ::
  "World \<Rightarrow> string \<Rightarrow> string \<Rightarrow> (string, string) gomap \<Rightarrow> (nat \<Rightarrow> string) \<Rightarrow> error option
     \<Rightarrow> (World \<times> (string \<times> error option) result) option"
where
  "CreateSnapshot w volumeID volumeAZ tgs gen createErr =
     (case genSnapshotID (snapshots (plugin w)) gen 0 of
        None \<Rightarrow> None
      | Some snapshotID \<Rightarrow>
          Some (case CreateSnapshot_remember w volumeID volumeAZ tgs snapshotID of
                  (w1, Panics pn) \<Rightarrow> (w1, Panics pn)
                | (w1, Returns snapshotCR) \<Rightarrow>
                    CreateSnapshot_call w1 snapshotID snapshotCR createErr))"

section \<open>Volume identifiers\<close>

definition GetVolumeID ::
  "('u, 'm) Converter \<Rightarrow> World \<Rightarrow> 'u \<Rightarrow> World \<times> (string \<times> error option) result"
where
  "GetVolumeID conv w unstructuredPV =
     (case FromUnstructured conv unstructuredPV of
        Inl err \<Rightarrow> (w, Returns ([], Some (WithStack err)))
      | Inr pv \<Rightarrow>
          if Name pv = [] \<or> SpecStorageClassName pv = [] then (w, Returns ([], None))
          else if mapIndex (volumes (plugin w)) (Name pv) = None
          then (case mapAssign (volumes (plugin w)) (Name pv)
                       \<lparr>volName = Name pv, volAZ = [],
                        storageClass = SpecStorageClassName pv, dataEngine = ''v1'',
                        volSize = (case mapIndex (SpecCapacity pv) ''storage'' of
                                     None \<Rightarrow> zeroQuantity | Some q \<Rightarrow> q)\<rparr> of
                  None \<Rightarrow> (w, Panics NilMapAssignment)
                | Some vols \<Rightarrow>
                    (w\<lparr>plugin := (plugin w)\<lparr>volumes := vols\<rparr>\<rparr>, Returns (Name pv, None)))
          else (w, Returns (Name pv, None)))"

definition SetVolumeID ::
  "('u, 'm) Converter \<Rightarrow> World \<Rightarrow> 'u \<Rightarrow> string \<Rightarrow> World \<times> ('u option \<times> error option) result"
where
  "SetVolumeID conv w unstructuredPV volumeID =
     (case FromUnstructured conv unstructuredPV of
        Inl err \<Rightarrow> (w, Returns (None, Some (WithStack err)))
      | Inr pv \<Rightarrow>
          (case mapIndex (volumes (plugin w)) volumeID of
             None \<Rightarrow>
               (w, Returns (None,
                    Some (Errorf (''volume '' @ volumeID @ '' does not exist in the group''))))
           | Some vol \<Rightarrow>
               (case ToUnstructured conv (pv\<lparr>Name := volName vol\<rparr>) of
                  Inl err \<Rightarrow> (w, Returns (None, Some (WithStack err)))
                | Inr res \<Rightarrow> (w, Returns (Some res, None)))))"

section \<open>Runs, reachable worlds and reading a descriptor\<close>

text \<open>
  A sequence of \<^verbatim>\<open>CreateSnapshot\<close> calls, one after the other on the same plugin. Each
  call has its own arguments, its own random draws and its own answer of the control
  plane. The result is the final world and what each call returned; a call whose retry
  loop never exits leaves the whole run without a result.
\<close>

type_synonym createCall =
  "string \<times> string \<times> (string, string) gomap \<times> (nat \<Rightarrow> string) \<times> error option"

fun CreateSnapshot_seq ::
  "World \<Rightarrow> createCall list \<Rightarrow> (World \<times> (string \<times> error option) result list) option"
where
  "CreateSnapshot_seq w [] = Some (w, [])"
| "CreateSnapshot_seq w ((volumeID, volumeAZ, tgs, gen, createErr) # cs) =
     (case CreateSnapshot w volumeID volumeAZ tgs gen createErr of
        None \<Rightarrow> None
      | Some (w1, r) \<Rightarrow>
          (case CreateSnapshot_seq w1 cs of
             None \<Rightarrow> None
           | Some (w2, rs) \<Rightarrow> Some (w2, r # rs)))"

text \<open>The identifiers that the successful calls of a run returned, in order.\<close>

fun returnedIDs :: "(string \<times> error option) result list \<Rightarrow> string list" where
  "returnedIDs [] = []"
| "returnedIDs (Returns (snapshotID, None) # rs) = snapshotID # returnedIDs rs"
| "returnedIDs (r # rs) = returnedIDs rs"

text \<open>
  The worlds a plugin can be in: it starts as \<^verbatim>\<open>NewVolumeSnapshotter\<close> builds it, with
  no request sent, and changes only through its operations, called with any arguments
  and in any environment.
\<close>

inductive reachable :: "('u, 'm) Converter \<Rightarrow> World \<Rightarrow> bool" for conv :: "('u, 'm) Converter"
where
  fresh: "reachable conv \<lparr>plugin = NewVolumeSnapshotter, longhorn = []\<rparr>"
| byInit: "reachable conv w \<Longrightarrow> Init env w cfg = (w', e) \<Longrightarrow> reachable conv w'"
| byCreateVolumeFromSnapshot:
    "reachable conv w \<Longrightarrow> CreateVolumeFromSnapshot w snapshotID volumeType volumeAZ iops = (w', r1)
       \<Longrightarrow> reachable conv w'"
| byGetVolumeInfo:
    "reachable conv w \<Longrightarrow> GetVolumeInfo w volumeID volumeAZ = (w', r2) \<Longrightarrow> reachable conv w'"
| byIsVolumeReady:
    "reachable conv w \<Longrightarrow> IsVolumeReady w volumeID volumeAZ = (w', r3) \<Longrightarrow> reachable conv w'"
| byCreateSnapshot:
    "reachable conv w \<Longrightarrow> CreateSnapshot w volumeID volumeAZ tgs gen createErr = Some (w', r4)
       \<Longrightarrow> reachable conv w'"
| byDeleteSnapshot:
    "reachable conv w \<Longrightarrow> DeleteSnapshot w snapshotID = (w', r5) \<Longrightarrow> reachable conv w'"
| byGetVolumeID:
    "reachable conv w \<Longrightarrow> GetVolumeID conv w unstructuredPV = (w', r6) \<Longrightarrow> reachable conv w'"
| bySetVolumeID:
    "reachable conv w \<Longrightarrow> SetVolumeID conv w unstructuredPV volumeID = (w', r7)
       \<Longrightarrow> reachable conv w'"

text \<open>Every record of the volume map is stored under its own name.\<close>

definition volumesKeyedByName :: "VolumeSnapshotter \<Rightarrow> bool" where
  "volumesKeyedByName p = (\<forall>k v. mapIndex (volumes p) k = Some v \<longrightarrow> volName v = k)"

text \<open>
  The name field of an unstructured descriptor is the name of the structured descriptor
  it converts to. \<open>nameSurvives\<close> is the one law of the library's converter that the
  identifier operations rely on: what \<open>ToUnstructured\<close> writes as the name is what
  \<open>FromUnstructured\<close> reads as the name.
\<close>

definition descriptorName :: "('u, 'm) Converter \<Rightarrow> 'u \<Rightarrow> string option" where
  "descriptorName conv u =
     (case FromUnstructured conv u of Inl err \<Rightarrow> None | Inr pv \<Rightarrow> Some (Name pv))"

definition nameSurvives :: "('u, 'm) Converter \<Rightarrow> bool" where
  "nameSurvives conv =
     (\<forall>pv u. ToUnstructured conv pv = Inr u \<longrightarrow> descriptorName conv u = Some (Name pv))"

text \<open>
  A small converter to run the operations with: an unstructured descriptor is either
  malformed (\<open>None\<close>) or carries the structured descriptor as it is.
\<close>

definition plainConverter :: "(PersistentVolume option, unit) Converter" where
  "plainConverter =
     \<lparr>FromUnstructured =
        (\<lambda>u. case u of None \<Rightarrow> Inl (External ''cannot convert'') | Some pv \<Rightarrow> Inr pv),
      ToUnstructured = (\<lambda>pv. Inr (Some pv))\<rparr>"

text \<open>An environment in which \<^verbatim>\<open>Init\<close> succeeds, and the world after it on a fresh plugin.\<close>

definition clusterEnv :: InitEnv where
  "clusterEnv =
     \<lparr>inClusterConfig = Inr ''in-cluster'',
      k8sNewForConfig = (\<lambda>conf. Inr (K8sClientset conf)),
      lhNewForConfig = (\<lambda>conf. Inr (LhClientset conf))\<rparr>"

definition readyWorld :: World where
  "readyWorld =
     fst (Init clusterEnv \<lparr>plugin = NewVolumeSnapshotter, longhorn = []\<rparr> (Some Map.empty))"

text \<open>
  A descriptor and the worlds used to run the operations on: \<open>snappedWorld\<close> is
  \<open>readyWorld\<close> after one successful \<^verbatim>\<open>CreateSnapshot\<close> of volume \<open>pv-1\<close>.
\<close>

definition pv1 :: PersistentVolume where
  "pv1 = \<lparr>Name = ''pv-1'', SpecStorageClassName = ''fast'',
          SpecCapacity = Some [''storage'' \<mapsto> Quantity 10 ''Gi'']\<rparr>"

definition snappedWorld :: World where
  "snappedWorld =
     \<lparr>plugin =
        \<lparr>config = Some Map.empty,
         volumes = Some [''pv-1'' \<mapsto> \<lparr>volName = ''pv-1'', volAZ = ''zone-a'', storageClass = [],
                                      dataEngine = ''v1'', volSize = zeroQuantity\<rparr>],
         snapshots = Some [''velero-snap-a'' \<mapsto>
                             \<lparr>snapVolName = ''pv-1'', snapVolAZ = ''zone-a'',
                              tags = Some [''k'' \<mapsto> ''v'']\<rparr>],
         k8sClient = Some (K8sClientset ''in-cluster''),
         lhClient = Some (LhClientset ''in-cluster'')\<rparr>,
      longhorn = [(''longhorn-system'',
                   \<lparr>metaName = ''velero-snap-a'', specVolume = ''pv-1'',
                    specCreateSnapshot = True\<rparr>)]\<rparr>"

text \<open>
  \<open>resnappedWorld\<close> is \<open>snappedWorld\<close> after a second successful \<^verbatim>\<open>CreateSnapshot\<close>
  of the same volume, asked for another zone; \<open>describedWorld\<close> is \<open>readyWorld\<close> after
  \<^verbatim>\<open>GetVolumeID\<close> has seen the descriptor \<open>pv1\<close>.
\<close>

definition resnappedWorld :: World where
  "resnappedWorld =
     snappedWorld
       \<lparr>plugin := (plugin snappedWorld)
          \<lparr>snapshots := Some [''velero-snap-a'' \<mapsto>
                                \<lparr>snapVolName = ''pv-1'', snapVolAZ = ''zone-a'',
                                 tags = Some [''k'' \<mapsto> ''v'']\<rparr>,
                              ''velero-snap-b'' \<mapsto>
                                \<lparr>snapVolName = ''pv-1'', snapVolAZ = ''zone-b'', tags = None\<rparr>]\<rparr>,
        longhorn := longhorn snappedWorld @
                      [(''longhorn-system'',
                        \<lparr>metaName = ''velero-snap-b'', specVolume = ''pv-1'',
                         specCreateSnapshot = True\<rparr>)]\<rparr>"

definition describedWorld :: World where
  "describedWorld =
     \<lparr>plugin =
        \<lparr>config = Some Map.empty,
         volumes = Some [''pv-1'' \<mapsto> \<lparr>volName = ''pv-1'', volAZ = [], storageClass = ''fast'',
                                      dataEngine = ''v1'', volSize = Quantity 10 ''Gi''\<rparr>],
         snapshots = Some Map.empty,
         k8sClient = Some (K8sClientset ''in-cluster''),
         lhClient = Some (LhClientset ''in-cluster'')\<rparr>,
      longhorn = []\<rparr>"

section \<open>Go maps\<close>

lemma mapIndex_Some [simp]: "mapIndex (Some f) k = f k"
  by (simp add: mapIndex_def)

lemma mapIndex_None [simp]: "mapIndex None k = None"
  by (simp add: mapIndex_def)

lemma mapAssign_Some [simp]: "mapAssign (Some f) k v = Some (Some (f(k \<mapsto> v)))"
  by (simp add: mapAssign_def)

lemma mapAssign_None [simp]: "mapAssign None k v = None"
  by (simp add: mapAssign_def)

section \<open>The retry loop\<close>

text \<open>
  Induction over the runs of the loop that exit: the recursive call is any function the
  property already holds for.
\<close>

lemmas genSnapshotID_induct = genSnapshotID.raw_induct[rotated, consumes 1, case_names step]

lemma genSnapshotID_unused:
  "genSnapshotID snaps gen i = Some sid \<Longrightarrow> mapIndex snaps sid = None"
proof (induction snaps gen i sid rule: genSnapshotID_induct)
  case (step f snaps gen i sid)
  then show ?case by (auto split: if_splits)
qed

lemma genSnapshotID_candidate:
  "genSnapshotID snaps gen i = Some sid \<Longrightarrow>
     \<exists>k\<ge>i. sid = ''velero-'' @ gen k \<and> (\<forall>j. i \<le> j \<and> j < k \<longrightarrow> mapIndex snaps (''velero-'' @ gen j) \<noteq> None)"
proof (induction snaps gen i sid rule: genSnapshotID_induct)
  case (step f snaps gen i sid)
  show ?case
  proof (cases "mapIndex snaps (''velero-'' @ gen i) = None")
    case True
    with step(2) have "sid = ''velero-'' @ gen i" by simp
    then show ?thesis by (auto intro!: exI[of _ i])
  next
    case False
    with step(2) have "f snaps gen (Suc i) = Some sid" by simp
    from step(1)[OF this] obtain k where k: "Suc i \<le> k" "sid = ''velero-'' @ gen k"
      "\<forall>j. Suc i \<le> j \<and> j < k \<longrightarrow> mapIndex snaps (''velero-'' @ gen j) \<noteq> None" by blast
    have "\<forall>j. i \<le> j \<and> j < k \<longrightarrow> mapIndex snaps (''velero-'' @ gen j) \<noteq> None"
    proof (intro allI impI)
      fix j assume "i \<le> j \<and> j < k"
      then show "mapIndex snaps (''velero-'' @ gen j) \<noteq> None"
        using False k(3) by (cases "j = i") auto
    qed
    with k show ?thesis by (auto intro!: exI[of _ k])
  qed
qed

lemma genSnapshotID_first_unused:
  "(\<forall>j<k. mapIndex snaps (''velero-'' @ gen (i + j)) \<noteq> None) \<Longrightarrow>
   mapIndex snaps (''velero-'' @ gen (i + k)) = None \<Longrightarrow>
   genSnapshotID snaps gen i = Some (''velero-'' @ gen (i + k))"
proof (induction k arbitrary: i)
  case 0
  then show ?case by (subst genSnapshotID.simps) simp
next
  case (Suc k)
  have used: "mapIndex snaps (''velero-'' @ gen i) \<noteq> None"
    using Suc.prems(1)[rule_format, of 0] by simp
  have "genSnapshotID snaps gen (Suc i) = Some (''velero-'' @ gen (Suc i + k))"
  proof (rule Suc.IH)
    show "\<forall>j<k. mapIndex snaps (''velero-'' @ gen (Suc i + j)) \<noteq> None"
      using Suc.prems(1) by (metis Suc_less_eq add_Suc_shift)
    show "mapIndex snaps (''velero-'' @ gen (Suc i + k)) = None"
      using Suc.prems(2) by simp
  qed
  then show ?case using used by (subst genSnapshotID.simps) simp
qed

section \<open>What each operation does to the maps\<close>

lemma remember_initialised:
  assumes "volumes (plugin w) = Some vs" and "snapshots (plugin w) = Some ss"
  shows "CreateSnapshot_remember w volumeID volumeAZ tgs sid =
           (w\<lparr>plugin := (plugin w)
                \<lparr>volumes := Some (if vs volumeID = None
                                   then vs(volumeID \<mapsto> \<lparr>volName = volumeID, volAZ = volumeAZ,
                                          storageClass = [], dataEngine = ''v1'', volSize = zeroQuantity\<rparr>)
                                   else vs),
                 snapshots := Some (ss(sid \<mapsto> \<lparr>snapVolName = volumeID, snapVolAZ = volumeAZ, tags = tgs\<rparr>))\<rparr>\<rparr>,
            Returns \<lparr>metaName = sid, specVolume = volumeID, specCreateSnapshot = True\<rparr>)"
  using assms by (simp add: CreateSnapshot_remember_def Let_def)

lemma remember_Returns:
  assumes "CreateSnapshot_remember w volumeID volumeAZ tgs sid = (w1, Returns cr)"
  shows "\<exists>vs ss. volumes (plugin w) = Some vs \<and> snapshots (plugin w) = Some ss"
  using assms
  by (cases "volumes (plugin w)"; cases "snapshots (plugin w)")
     (auto simp: CreateSnapshot_remember_def Let_def split: if_splits)

lemma remember_volumes:
  "CreateSnapshot_remember w volumeID volumeAZ tgs sid = (w1, r) \<Longrightarrow>
   mapIndex (volumes (plugin w)) k = Some v \<Longrightarrow> mapIndex (volumes (plugin w1)) k = Some v"
  by (cases "volumes (plugin w)"; cases "snapshots (plugin w)")
     (auto simp: CreateSnapshot_remember_def Let_def split: if_splits)

lemma remember_snapshots:
  "CreateSnapshot_remember w volumeID volumeAZ tgs sid = (w1, r) \<Longrightarrow>
   mapIndex (snapshots (plugin w)) k \<noteq> None \<Longrightarrow> mapIndex (snapshots (plugin w1)) k \<noteq> None"
  by (cases "volumes (plugin w)"; cases "snapshots (plugin w)")
     (auto simp: CreateSnapshot_remember_def Let_def split: if_splits)

lemma remember_keyed:
  "CreateSnapshot_remember w volumeID volumeAZ tgs sid = (w1, r) \<Longrightarrow>
   volumesKeyedByName (plugin w) \<Longrightarrow> volumesKeyedByName (plugin w1)"
  by (cases "volumes (plugin w)"; cases "snapshots (plugin w)")
     (auto simp: CreateSnapshot_remember_def volumesKeyedByName_def Let_def split: if_splits)

lemma call_plugin:
  "CreateSnapshot_call w sid cr createErr = (w', r) \<Longrightarrow> plugin w' = plugin w"
  by (auto simp: CreateSnapshot_call_def Let_def split: option.splits)

lemma call_success:
  "CreateSnapshot_call w sid cr createErr = (w', Returns (sid', None)) \<Longrightarrow> sid' = sid \<and> createErr = None"
  by (auto simp: CreateSnapshot_call_def Let_def split: option.splits)

lemma CreateSnapshot_cases:
  assumes "CreateSnapshot w volumeID volumeAZ tgs gen createErr = Some (w', r)"
  obtains sid w1 pn where "genSnapshotID (snapshots (plugin w)) gen 0 = Some sid"
      "CreateSnapshot_remember w volumeID volumeAZ tgs sid = (w1, Panics pn)" "w' = w1" "r = Panics pn"
  | sid w1 cr where "genSnapshotID (snapshots (plugin w)) gen 0 = Some sid"
      "CreateSnapshot_remember w volumeID volumeAZ tgs sid = (w1, Returns cr)"
      "CreateSnapshot_call w1 sid cr createErr = (w', r)"
  using assms
  by (auto simp: CreateSnapshot_def split: option.splits prod.splits result.splits)

lemma CreateSnapshot_volumes:
  assumes "CreateSnapshot w volumeID volumeAZ tgs gen createErr = Some (w', r)"
    and "mapIndex (volumes (plugin w)) k = Some v"
  shows "mapIndex (volumes (plugin w')) k = Some v"
  using assms(1)
proof (cases rule: CreateSnapshot_cases)
  case (1 sid w1 pn)
  then show ?thesis using remember_volumes assms(2) by blast
next
  case (2 sid w1 cr)
  then show ?thesis using remember_volumes[OF 2(2) assms(2)] call_plugin[OF 2(3)] by simp
qed

lemma CreateSnapshot_snapshots:
  assumes "CreateSnapshot w volumeID volumeAZ tgs gen createErr = Some (w', r)"
    and "mapIndex (snapshots (plugin w)) k \<noteq> None"
  shows "mapIndex (snapshots (plugin w')) k \<noteq> None"
  using assms(1)
proof (cases rule: CreateSnapshot_cases)
  case (1 sid w1 pn)
  then show ?thesis using remember_snapshots assms(2) by blast
next
  case (2 sid w1 cr)
  then show ?thesis using remember_snapshots[OF 2(2) assms(2)] call_plugin[OF 2(3)] by simp
qed

lemma CreateSnapshot_keyed:
  assumes "CreateSnapshot w volumeID volumeAZ tgs gen createErr = Some (w', r)"
    and "volumesKeyedByName (plugin w)"
  shows "volumesKeyedByName (plugin w')"
  using assms(1)
proof (cases rule: CreateSnapshot_cases)
  case (1 sid w1 pn)
  then show ?thesis using remember_keyed assms(2) by blast
next
  case (2 sid w1 cr)
  then show ?thesis using remember_keyed[OF 2(2) assms(2)] call_plugin[OF 2(3)] by simp
qed

lemma CreateSnapshot_success:
  assumes "CreateSnapshot w volumeID volumeAZ tgs gen createErr = Some (w', Returns (sid, None))"
  shows "genSnapshotID (snapshots (plugin w)) gen 0 = Some sid \<and>
         mapIndex (snapshots (plugin w')) sid =
           Some \<lparr>snapVolName = volumeID, snapVolAZ = volumeAZ, tags = tgs\<rparr>"
  using assms
proof (cases rule: CreateSnapshot_cases)
  case (1 sid w1 pn)
  then show ?thesis by simp
next
  case (2 sid0 w1 cr)
  from call_success[OF 2(3)] have eq: "sid = sid0" by simp
  from remember_Returns[OF 2(2)] obtain vs ss where
    init: "volumes (plugin w) = Some vs" "snapshots (plugin w) = Some ss" by blast
  from remember_initialised[OF init, of volumeID volumeAZ tgs sid0] 2(2)
  have "mapIndex (snapshots (plugin w1)) sid0 =
          Some \<lparr>snapVolName = volumeID, snapVolAZ = volumeAZ, tags = tgs\<rparr>"
    by auto
  then show ?thesis using 2(1) eq call_plugin[OF 2(3)] by simp
qed

lemma Init_volumes:
  "Init env w cfg = (w', e) \<Longrightarrow> mapIndex (volumes (plugin w)) k = Some v
     \<Longrightarrow> mapIndex (volumes (plugin w')) k = Some v"
  by (cases "volumes (plugin w)")
     (auto simp: Init_def Let_def split: sum.splits if_splits)

lemma Init_keyed:
  "Init env w cfg = (w', e) \<Longrightarrow> volumesKeyedByName (plugin w) \<Longrightarrow> volumesKeyedByName (plugin w')"
  by (cases "volumes (plugin w)")
     (auto simp: Init_def Let_def volumesKeyedByName_def split: sum.splits if_splits)

lemma GetVolumeID_volumes:
  "GetVolumeID conv w u = (w', r) \<Longrightarrow> mapIndex (volumes (plugin w)) k = Some v
     \<Longrightarrow> mapIndex (volumes (plugin w')) k = Some v"
  by (cases "volumes (plugin w)")
     (auto simp: GetVolumeID_def Let_def split: sum.splits if_splits)

lemma GetVolumeID_keyed:
  "GetVolumeID conv w u = (w', r) \<Longrightarrow> volumesKeyedByName (plugin w) \<Longrightarrow> volumesKeyedByName (plugin w')"
  by (cases "volumes (plugin w)")
     (auto simp: GetVolumeID_def Let_def volumesKeyedByName_def split: sum.splits if_splits)

lemma SetVolumeID_world:
  "SetVolumeID conv w u volumeID = (w', r) \<Longrightarrow> w' = w"
  by (auto simp: SetVolumeID_def split: sum.splits option.splits)

lemma reachable_keyed:
  "reachable conv w \<Longrightarrow> volumesKeyedByName (plugin w)"
proof (induction rule: reachable.induct)
  case fresh
  then show ?case by (simp add: volumesKeyedByName_def NewVolumeSnapshotter_def)
next
  case (byInit w env cfg w' e)
  then show ?case using Init_keyed by blast
next
  case (byCreateVolumeFromSnapshot w snapshotID volumeType volumeAZ iops w' r1)
  then show ?case by (auto simp: CreateVolumeFromSnapshot_def split: option.splits)
next
  case (byGetVolumeInfo w volumeID volumeAZ w' r2)
  then show ?case by (simp add: GetVolumeInfo_def)
next
  case (byIsVolumeReady w volumeID volumeAZ w' r3)
  then show ?case by (simp add: IsVolumeReady_def)
next
  case (byCreateSnapshot w volumeID volumeAZ tgs gen createErr w' r4)
  then show ?case using CreateSnapshot_keyed by blast
next
  case (byDeleteSnapshot w snapshotID w' r5)
  then show ?case by (simp add: DeleteSnapshot_def)
next
  case (byGetVolumeID w unstructuredPV w' r6)
  then show ?case using GetVolumeID_keyed[of conv w unstructuredPV w' r6] by simp
next
  case (bySetVolumeID w unstructuredPV volumeID w' r7)
  then show ?case using SetVolumeID_world[of conv w unstructuredPV volumeID w' r7] by simp
qed

lemma GetVolumeID_initialised:
  assumes "FromUnstructured conv u = Inr pv" and "Name pv \<noteq> []"
    and "SpecStorageClassName pv \<noteq> []" and "volumes (plugin w) = Some vs"
  shows "GetVolumeID conv w u =
           (w\<lparr>plugin := (plugin w)
                \<lparr>volumes := Some (case vs (Name pv) of
                                    None \<Rightarrow> vs(Name pv \<mapsto>
                                      \<lparr>volName = Name pv, volAZ = [],
                                       storageClass = SpecStorageClassName pv, dataEngine = ''v1'',
                                       volSize = (case mapIndex (SpecCapacity pv) ''storage'' of
                                                    None \<Rightarrow> zeroQuantity | Some q \<Rightarrow> q)\<rparr>)
                                  | Some v \<Rightarrow> vs)\<rparr>\<rparr>,
            Returns (Name pv, None))"
  using assms by (auto simp: GetVolumeID_def split: option.splits)

section \<open>Runs of several calls\<close>

lemma seq_length:
  "CreateSnapshot_seq w cs = Some (w', rs) \<Longrightarrow> length rs = length cs"
proof (induction cs arbitrary: w w' rs)
  case Nil
  then show ?case by simp
next
  case (Cons c cs)
  obtain volumeID volumeAZ tgs gen createErr where c: "c = (volumeID, volumeAZ, tgs, gen, createErr)"
    by (cases c) auto
  from Cons.prems c obtain w1 r rs' where
    "CreateSnapshot_seq w1 cs = Some (w', rs')" "rs = r # rs'"
    by (auto split: option.splits prod.splits)
  then show ?case using Cons.IH by auto
qed

lemma seq_fresh:
  "CreateSnapshot_seq w cs = Some (w', rs) \<Longrightarrow>
     distinct (returnedIDs rs) \<and>
     (\<forall>sid \<in> set (returnedIDs rs). mapIndex (snapshots (plugin w)) sid = None)"
proof (induction cs arbitrary: w w' rs)
  case Nil
  then show ?case by simp
next
  case (Cons c cs)
  obtain volumeID volumeAZ tgs gen createErr where c: "c = (volumeID, volumeAZ, tgs, gen, createErr)"
    by (cases c) auto
  from Cons.prems c obtain w1 r rs' where
    first: "CreateSnapshot w volumeID volumeAZ tgs gen createErr = Some (w1, r)"
    and rest: "CreateSnapshot_seq w1 cs = Some (w', rs')" and rs: "rs = r # rs'"
    by (auto split: option.splits prod.splits)
  from Cons.IH[OF rest] have d: "distinct (returnedIDs rs')"
    and f1: "\<forall>sid \<in> set (returnedIDs rs'). mapIndex (snapshots (plugin w1)) sid = None"
    by auto
  have f: "\<forall>sid \<in> set (returnedIDs rs'). mapIndex (snapshots (plugin w)) sid = None"
    using f1 CreateSnapshot_snapshots[OF first] by (metis option.distinct(1))
  show ?case
  proof (cases "\<exists>sid. r = Returns (sid, None)")
    case True
    then obtain sid where r: "r = Returns (sid, None)" by blast
    from CreateSnapshot_success[OF first[unfolded r]]
    have g: "genSnapshotID (snapshots (plugin w)) gen 0 = Some sid"
      and s: "mapIndex (snapshots (plugin w1)) sid \<noteq> None" by auto
    from s f1 have "sid \<notin> set (returnedIDs rs')" by auto
    moreover from g have "mapIndex (snapshots (plugin w)) sid = None"
      by (rule genSnapshotID_unused)
    ultimately show ?thesis using d f rs r by simp
  next
    case False
    then have "returnedIDs (r # rs') = returnedIDs rs'"
      by (cases r; cases "snd (case r of Returns x \<Rightarrow> x)") (auto split: prod.splits)
    then show ?thesis using d f rs by simp
  qed
qed

lemma returnedIDs_all:
  "\<forall>r \<in> set rs. \<exists>sid. r = Returns (sid, None) \<Longrightarrow> length (returnedIDs rs) = length rs"
  by (induction rs) auto

section \<open>The example worlds\<close>

lemma readyWorld_eq:
  "readyWorld =
     \<lparr>plugin = \<lparr>config = Some Map.empty, volumes = Some Map.empty, snapshots = Some Map.empty,
                k8sClient = Some (K8sClientset ''in-cluster''),
                lhClient = Some (LhClientset ''in-cluster'')\<rparr>,
      longhorn = []\<rparr>"
  by (simp add: readyWorld_def Init_def clusterEnv_def NewVolumeSnapshotter_def Let_def)

lemma readyWorld_reachable: "reachable conv readyWorld"
proof -
  have "Init clusterEnv \<lparr>plugin = NewVolumeSnapshotter, longhorn = []\<rparr> (Some Map.empty)
          = (readyWorld, snd (Init clusterEnv \<lparr>plugin = NewVolumeSnapshotter, longhorn = []\<rparr> (Some Map.empty)))"
    by (simp add: readyWorld_def)
  then show ?thesis using reachable.byInit[OF reachable.fresh] by blast
qed

lemma gen_ready: "genSnapshotID (Some Map.empty) (\<lambda>i. ''snap-a'') 0 = Some ''velero-snap-a''"
  by (subst genSnapshotID.simps) simp

lemma CreateSnapshot_readyWorld:
  "CreateSnapshot readyWorld ''pv-1'' ''zone-a'' (Some [''k'' \<mapsto> ''v'']) (\<lambda>i. ''snap-a'') None
     = Some (snappedWorld, Returns (''velero-snap-a'', None))"
  by (simp add: CreateSnapshot_def readyWorld_eq gen_ready CreateSnapshot_remember_def
      CreateSnapshot_call_def snappedWorld_def Let_def)

lemma snappedWorld_reachable: "reachable conv snappedWorld"
  using reachable.byCreateSnapshot[OF readyWorld_reachable CreateSnapshot_readyWorld] .

lemma gen_snapped:
  "genSnapshotID (snapshots (plugin snappedWorld)) (\<lambda>i. if i = 0 then ''snap-a'' else ''snap-b'') 0
     = Some ''velero-snap-b''"
  by (subst genSnapshotID.simps, subst genSnapshotID.simps) (simp add: snappedWorld_def)

lemma CreateSnapshot_snappedWorld:
  "CreateSnapshot snappedWorld ''pv-1'' ''zone-b'' None (\<lambda>i. if i = 0 then ''snap-a'' else ''snap-b'') None
     = Some (resnappedWorld, Returns (''velero-snap-b'', None))"
  unfolding CreateSnapshot_def gen_snapped
  by (simp add: CreateSnapshot_remember_def CreateSnapshot_call_def snappedWorld_def Let_def resnappedWorld_def)

lemma GetVolumeID_snappedWorld:
  "GetVolumeID plainConverter snappedWorld (Some pv1) = (snappedWorld, Returns (''pv-1'', None))"
  by (simp add: GetVolumeID_def plainConverter_def pv1_def snappedWorld_def)

lemma plainConverter_nameSurvives: "nameSurvives plainConverter"
  by (auto simp: nameSurvives_def descriptorName_def plainConverter_def)

section \<open>Creating a snapshot: the registry and the control plane\<close>

text \<open>
  C1. When the plugin is initialised and the retry loop has chosen \<open>snapshotID\<close>, the
  local part of \<^verbatim>\<open>CreateSnapshot\<close> ends in a world \<open>w1\<close> whose snapshot map already
  holds the new record under \<open>snapshotID\<close> and whose volume map holds the volume (the
  record it had, or the new one), while the control plane has received nothing more than
  before: the maps are written before the request is sent. If the control plane answers
  the request with an error, \<^verbatim>\<open>CreateSnapshot\<close> returns that error with the empty
  identifier, and the plugin's state is still that of \<open>w1\<close>: neither insertion is undone.
\<close>

theorem CreateSnapshot_failure_keeps_registry:
  assumes "volumes (plugin w) = Some vs" and "snapshots (plugin w) = Some ss"
    and "lhClient (plugin w) = Some c"
    and "genSnapshotID (snapshots (plugin w)) gen 0 = Some snapshotID"
  shows "\<exists>w1 snapshotCR.
           CreateSnapshot_remember w volumeID volumeAZ tgs snapshotID = (w1, Returns snapshotCR) \<and>
           longhorn w1 = longhorn w \<and>
           mapIndex (snapshots (plugin w1)) snapshotID
             = Some \<lparr>snapVolName = volumeID, snapVolAZ = volumeAZ, tags = tgs\<rparr> \<and>
           mapIndex (volumes (plugin w1)) volumeID
             = Some (case vs volumeID of
                       Some v \<Rightarrow> v
                     | None \<Rightarrow> \<lparr>volName = volumeID, volAZ = volumeAZ, storageClass = [],
                                dataEngine = ''v1'', volSize = zeroQuantity\<rparr>) \<and>
           CreateSnapshot w volumeID volumeAZ tgs gen (Some err)
             = Some (w1\<lparr>longhorn := longhorn w @ [(''longhorn-system'', snapshotCR)]\<rparr>,
                     Returns ([], Some err))"
proof -
  let ?w1 = "w\<lparr>plugin := (plugin w)
                \<lparr>volumes := Some (if vs volumeID = None
                                   then vs(volumeID \<mapsto> \<lparr>volName = volumeID, volAZ = volumeAZ,
                                          storageClass = [], dataEngine = ''v1'', volSize = zeroQuantity\<rparr>)
                                   else vs),
                 snapshots := Some (ss(snapshotID \<mapsto> \<lparr>snapVolName = volumeID, snapVolAZ = volumeAZ, tags = tgs\<rparr>))\<rparr>\<rparr>"
  let ?cr = "\<lparr>metaName = snapshotID, specVolume = volumeID, specCreateSnapshot = True\<rparr>"
  have rem: "CreateSnapshot_remember w volumeID volumeAZ tgs snapshotID = (?w1, Returns ?cr)"
    by (rule remember_initialised[OF assms(1,2)])
  have lh: "longhorn ?w1 = longhorn w" by simp
  have sn: "mapIndex (snapshots (plugin ?w1)) snapshotID
             = Some \<lparr>snapVolName = volumeID, snapVolAZ = volumeAZ, tags = tgs\<rparr>" by simp
  have vo: "mapIndex (volumes (plugin ?w1)) volumeID
             = Some (case vs volumeID of
                       Some v \<Rightarrow> v
                     | None \<Rightarrow> \<lparr>volName = volumeID, volAZ = volumeAZ, storageClass = [],
                                dataEngine = ''v1'', volSize = zeroQuantity\<rparr>)"
    by (auto split: option.splits)
  have call: "CreateSnapshot_call ?w1 snapshotID ?cr (Some err)
               = (?w1\<lparr>longhorn := longhorn w @ [(''longhorn-system'', ?cr)]\<rparr>, Returns ([], Some err))"
    using assms(3) by (simp add: CreateSnapshot_call_def Let_def)
  have whole: "CreateSnapshot w volumeID volumeAZ tgs gen (Some err)
             = Some (?w1\<lparr>longhorn := longhorn w @ [(''longhorn-system'', ?cr)]\<rparr>,
                     Returns ([], Some err))"
    unfolding CreateSnapshot_def using assms(4) rem call by simp
  from rem lh sn vo whole show ?thesis by blast
qed

theorem CreateSnapshot_failure_keeps_registry_witness:
  "volumes (plugin readyWorld) = Some Map.empty \<and>
   snapshots (plugin readyWorld) = Some Map.empty \<and>
   lhClient (plugin readyWorld) = Some (LhClientset ''in-cluster'') \<and>
   genSnapshotID (snapshots (plugin readyWorld)) (\<lambda>i. ''snap-a'') 0 = Some ''velero-snap-a'' \<and>
   (\<exists>w1 snapshotCR.
      CreateSnapshot_remember readyWorld ''pv-1'' ''zone-a'' (Some [''k'' \<mapsto> ''v'']) ''velero-snap-a''
        = (w1, Returns snapshotCR) \<and>
      longhorn w1 = longhorn readyWorld \<and>
      mapIndex (snapshots (plugin w1)) ''velero-snap-a''
        = Some \<lparr>snapVolName = ''pv-1'', snapVolAZ = ''zone-a'', tags = Some [''k'' \<mapsto> ''v'']\<rparr> \<and>
      mapIndex (volumes (plugin w1)) ''pv-1''
        = Some \<lparr>volName = ''pv-1'', volAZ = ''zone-a'', storageClass = [],
                 dataEngine = ''v1'', volSize = zeroQuantity\<rparr> \<and>
      CreateSnapshot readyWorld ''pv-1'' ''zone-a'' (Some [''k'' \<mapsto> ''v'']) (\<lambda>i. ''snap-a'')
          (Some (External ''connection refused''))
        = Some (w1\<lparr>longhorn := longhorn readyWorld @
                       [(''longhorn-system'', snapshotCR)]\<rparr>,
                Returns ([], Some (External ''connection refused''))))"
proof -
  have h1: "volumes (plugin readyWorld) = Some Map.empty" by (simp add: readyWorld_eq)
  have h2: "snapshots (plugin readyWorld) = Some Map.empty" by (simp add: readyWorld_eq)
  have h3: "lhClient (plugin readyWorld) = Some (LhClientset ''in-cluster'')"
    by (simp add: readyWorld_eq)
  have h4: "genSnapshotID (snapshots (plugin readyWorld)) (\<lambda>i. ''snap-a'') 0 = Some ''velero-snap-a''"
    by (simp add: h2 gen_ready)
  from CreateSnapshot_failure_keeps_registry[OF h1 h2 h3 h4,
        of "''pv-1''" "''zone-a''" "Some [''k'' \<mapsto> ''v'']" "External ''connection refused''"]
  show ?thesis using h1 h2 h3 h4 by simp
qed

text \<open>
  C2. An identifier that \<^verbatim>\<open>CreateSnapshot\<close> returns with the nil error is the prefix
  \<open>velero-\<close> followed by one of the generator's draws, every earlier draw of the call
  was taken, and the identifier itself was not a key of the snapshot map before the call.
  The loop does end at the first draw that is not taken. A run of any number of calls,
  one after the other, records one outcome for each call, and the identifiers returned
  by its successful calls are pairwise distinct; when all calls succeed there are as many
  identifiers as calls.
\<close>

theorem CreateSnapshot_identifiers_fresh:
  "(CreateSnapshot w volumeID volumeAZ tgs gen createErr = Some (w', Returns (snapshotID, None)) \<longrightarrow>
      (\<exists>k. snapshotID = ''velero-'' @ gen k \<and>
           (\<forall>j<k. mapIndex (snapshots (plugin w)) (''velero-'' @ gen j) \<noteq> None)) \<and>
      mapIndex (snapshots (plugin w)) snapshotID = None) \<and>
   ((\<forall>j<k. mapIndex snaps (''velero-'' @ gen j) \<noteq> None) \<and>
    mapIndex snaps (''velero-'' @ gen k) = None \<longrightarrow>
      genSnapshotID snaps gen 0 = Some (''velero-'' @ gen k)) \<and>
   (CreateSnapshot_seq w0 cs = Some (w'', rs) \<longrightarrow>
      length rs = length cs \<and> distinct (returnedIDs rs) \<and>
      ((\<forall>r \<in> set rs. \<exists>sid. r = Returns (sid, None)) \<longrightarrow>
         length (returnedIDs rs) = length cs))"
proof (intro conjI impI)
  assume a: "CreateSnapshot w volumeID volumeAZ tgs gen createErr
               = Some (w', Returns (snapshotID, None))"
  from CreateSnapshot_success[OF a]
  have g: "genSnapshotID (snapshots (plugin w)) gen 0 = Some snapshotID" by simp
  from genSnapshotID_candidate[OF g]
  show "\<exists>k. snapshotID = ''velero-'' @ gen k \<and>
           (\<forall>j<k. mapIndex (snapshots (plugin w)) (''velero-'' @ gen j) \<noteq> None)"
    by auto
  from g show "mapIndex (snapshots (plugin w)) snapshotID = None"
    by (rule genSnapshotID_unused)
next
  assume "(\<forall>j<k. mapIndex snaps (''velero-'' @ gen j) \<noteq> None) \<and>
    mapIndex snaps (''velero-'' @ gen k) = None"
  then show "genSnapshotID snaps gen 0 = Some (''velero-'' @ gen k)"
    using genSnapshotID_first_unused[of k snaps gen 0] by simp
next
  assume a: "CreateSnapshot_seq w0 cs = Some (w'', rs)"
  then show len: "length rs = length cs" by (rule seq_length)
  from a show "distinct (returnedIDs rs)" using seq_fresh by blast
  assume "\<forall>r \<in> set rs. \<exists>sid. r = Returns (sid, None)"
  then show "length (returnedIDs rs) = length cs"
    using len returnedIDs_all by metis
qed

theorem CreateSnapshot_identifiers_fresh_witness:
  "CreateSnapshot snappedWorld ''pv-1'' ''zone-b'' None
       (\<lambda>i. if i = 0 then ''snap-a'' else ''snap-b'') None
     = Some (resnappedWorld, Returns (''velero-snap-b'', None)) \<and>
   mapIndex (snapshots (plugin snappedWorld)) ''velero-snap-a'' \<noteq> None \<and>
   mapIndex (snapshots (plugin snappedWorld)) ''velero-snap-b'' = None \<and>
   genSnapshotID (snapshots (plugin snappedWorld))
       (\<lambda>i. if i = 0 then ''snap-a'' else ''snap-b'') 0 = Some ''velero-snap-b'' \<and>
   CreateSnapshot_seq readyWorld
       [(''pv-1'', ''zone-a'', Some [''k'' \<mapsto> ''v''], \<lambda>i. ''snap-a'', None),
        (''pv-1'', ''zone-b'', None, \<lambda>i. if i = 0 then ''snap-a'' else ''snap-b'', None)]
     = Some (resnappedWorld,
             [Returns (''velero-snap-a'', None), Returns (''velero-snap-b'', None)]) \<and>
   distinct (returnedIDs [Returns (''velero-snap-a'', None), Returns (''velero-snap-b'', None)]) \<and>
   length (returnedIDs [Returns (''velero-snap-a'', None), Returns (''velero-snap-b'', None)])
     = (2::nat)"
proof -
  let ?G = "\<lambda>i::nat. if i = 0 then ''snap-a'' else ''snap-b''"
  let ?cs = "[(''pv-1'', ''zone-a'', Some [''k'' \<mapsto> ''v''], \<lambda>i::nat. ''snap-a'', None :: error option),
              (''pv-1'', ''zone-b'', None, ?G, None)]"
  let ?rs = "[Returns (''velero-snap-a'', None :: error option), Returns (''velero-snap-b'', None)]"
  have used: "mapIndex (snapshots (plugin snappedWorld)) ''velero-snap-a'' \<noteq> None"
    by (simp add: snappedWorld_def)
  have unused: "mapIndex (snapshots (plugin snappedWorld)) ''velero-snap-b'' = None"
    by (simp add: snappedWorld_def)
  have run: "CreateSnapshot_seq readyWorld ?cs = Some (resnappedWorld, ?rs)"
    by (simp add: CreateSnapshot_readyWorld CreateSnapshot_snappedWorld)
  have all: "\<forall>r \<in> set ?rs. \<exists>sid. r = Returns (sid, None)" by simp
  have draws: "(\<forall>j<1. mapIndex (snapshots (plugin snappedWorld)) (''velero-'' @ ?G j) \<noteq> None) \<and>
               mapIndex (snapshots (plugin snappedWorld)) (''velero-'' @ ?G 1) = None"
    using used unused by simp
  from CreateSnapshot_identifiers_fresh
         [where w = snappedWorld and volumeID = "''pv-1''" and volumeAZ = "''zone-b''"
            and tgs = None and gen = ?G and createErr = None and w' = resnappedWorld
            and snapshotID = "''velero-snap-b''" and k = 1
            and snaps = "snapshots (plugin snappedWorld)" and ?w0.0 = readyWorld
            and cs = ?cs and w'' = resnappedWorld and rs = ?rs]
       CreateSnapshot_snappedWorld run all draws
  have "genSnapshotID (snapshots (plugin snappedWorld)) ?G 0 = Some ''velero-snap-b'' \<and>
        distinct (returnedIDs ?rs) \<and> length (returnedIDs ?rs) = length ?cs"
    by simp
  then show ?thesis using CreateSnapshot_snappedWorld used unused run by simp
qed

text \<open>
  C7. When \<^verbatim>\<open>CreateSnapshot\<close> succeeds (it returns an identifier and the nil error),
  the snapshot map of the plugin holds, under the returned identifier, the record whose
  source volume is the \<open>volumeID\<close> of the call, whose zone is the \<open>volumeAZ\<close> of the
  call and whose tags are the tags of the call.
\<close>

theorem CreateSnapshot_metadata:
  "CreateSnapshot w volumeID volumeAZ tgs gen createErr = Some (w', Returns (snapshotID, None)) \<Longrightarrow>
   mapIndex (snapshots (plugin w')) snapshotID
     = Some \<lparr>snapVolName = volumeID, snapVolAZ = volumeAZ, tags = tgs\<rparr>"
  using CreateSnapshot_success by blast

theorem CreateSnapshot_metadata_witness:
  "CreateSnapshot readyWorld ''pv-1'' ''zone-a'' (Some [''k'' \<mapsto> ''v'']) (\<lambda>i. ''snap-a'') None
     = Some (snappedWorld, Returns (''velero-snap-a'', None)) \<and>
   mapIndex (snapshots (plugin snappedWorld)) ''velero-snap-a''
     = Some \<lparr>snapVolName = ''pv-1'', snapVolAZ = ''zone-a'', tags = Some [''k'' \<mapsto> ''v'']\<rparr>"
  using CreateSnapshot_metadata[OF CreateSnapshot_readyWorld] CreateSnapshot_readyWorld by simp

section \<open>Volume registration\<close>

text \<open>
  C3. Once the volume map holds a record under a name, that record stays: after any
  \<^verbatim>\<open>CreateSnapshot\<close> for that name (any zone, tags, draws and answer of the control
  plane) and after any \<^verbatim>\<open>GetVolumeID\<close> (any descriptor, whatever its fields), the map
  holds the same record under that name. The map has one record for each name, so a
  second registration never adds a second record.
\<close>

theorem volume_registration_first_write_wins:
  assumes "mapIndex (volumes (plugin w)) name = Some v"
  shows "(CreateSnapshot w name volumeAZ tgs gen createErr = Some (w1, r1) \<longrightarrow>
            mapIndex (volumes (plugin w1)) name = Some v) \<and>
         (GetVolumeID conv w u = (w2, r2) \<longrightarrow>
            mapIndex (volumes (plugin w2)) name = Some v)"
  using assms CreateSnapshot_volumes[of w name volumeAZ tgs gen createErr w1 r1 name v]
    GetVolumeID_volumes[of conv w u w2 r2 name v]
  by simp

theorem volume_registration_first_write_wins_witness:
  "mapIndex (volumes (plugin snappedWorld)) ''pv-1''
     = Some \<lparr>volName = ''pv-1'', volAZ = ''zone-a'', storageClass = [],
              dataEngine = ''v1'', volSize = zeroQuantity\<rparr> \<and>
   CreateSnapshot snappedWorld ''pv-1'' ''zone-b'' None
       (\<lambda>i. if i = 0 then ''snap-a'' else ''snap-b'') None
     = Some (resnappedWorld, Returns (''velero-snap-b'', None)) \<and>
   mapIndex (volumes (plugin resnappedWorld)) ''pv-1''
     = Some \<lparr>volName = ''pv-1'', volAZ = ''zone-a'', storageClass = [],
              dataEngine = ''v1'', volSize = zeroQuantity\<rparr> \<and>
   GetVolumeID plainConverter snappedWorld (Some pv1) = (snappedWorld, Returns (''pv-1'', None))"
proof -
  have h: "mapIndex (volumes (plugin snappedWorld)) ''pv-1''
     = Some \<lparr>volName = ''pv-1'', volAZ = ''zone-a'', storageClass = [],
              dataEngine = ''v1'', volSize = zeroQuantity\<rparr>"
    by (simp add: snappedWorld_def)
  from volume_registration_first_write_wins[OF h, of "''zone-b''" None
         "\<lambda>i. if i = 0 then ''snap-a'' else ''snap-b''" None resnappedWorld
         "Returns (''velero-snap-b'', None)" plainConverter "Some pv1" snappedWorld
         "Returns (''pv-1'', None)"]
  show ?thesis using h CreateSnapshot_snappedWorld GetVolumeID_snappedWorld by simp
qed

section \<open>Volume identifiers and descriptors\<close>

text \<open>
  C4. For a descriptor that converts to a structured volume: when the volume map has no
  entry for \<open>volumeID\<close>, \<^verbatim>\<open>SetVolumeID\<close> returns no descriptor and the error
  \<open>volume ... does not exist in the group\<close>, and it changes nothing (the argument is a
  value that the operation only reads); when the map has a record for \<open>volumeID\<close>, the
  operation returns the unstructured form of the descriptor with its name replaced by the
  recorded name, and the name read back from the returned descriptor is the recorded
  name.
\<close>

theorem SetVolumeID_lookup:
  assumes "FromUnstructured conv u = Inr pv"
  shows "(mapIndex (volumes (plugin w)) volumeID = None \<longrightarrow>
            SetVolumeID conv w u volumeID
              = (w, Returns (None, Some (Errorf (''volume '' @ volumeID @
                                                   '' does not exist in the group''))))) \<and>
         (\<forall>vol res. mapIndex (volumes (plugin w)) volumeID = Some vol \<and>
                    ToUnstructured conv (pv\<lparr>Name := volName vol\<rparr>) = Inr res \<longrightarrow>
            SetVolumeID conv w u volumeID = (w, Returns (Some res, None)) \<and>
            (nameSurvives conv \<longrightarrow> descriptorName conv res = Some (volName vol)))"
proof (intro conjI impI allI)
  assume "mapIndex (volumes (plugin w)) volumeID = None"
  then show "SetVolumeID conv w u volumeID
              = (w, Returns (None, Some (Errorf (''volume '' @ volumeID @
                                                   '' does not exist in the group''))))"
    using assms by (simp add: SetVolumeID_def)
next
  fix vol res
  assume h: "mapIndex (volumes (plugin w)) volumeID = Some vol \<and>
             ToUnstructured conv (pv\<lparr>Name := volName vol\<rparr>) = Inr res"
  then show "SetVolumeID conv w u volumeID = (w, Returns (Some res, None))"
    using assms by (simp add: SetVolumeID_def)
  assume "nameSurvives conv"
  with h have "descriptorName conv res = Some (Name (pv\<lparr>Name := volName vol\<rparr>))"
    unfolding nameSurvives_def by blast
  then show "descriptorName conv res = Some (volName vol)" by simp
qed

theorem SetVolumeID_lookup_witness:
  "FromUnstructured plainConverter (Some pv1) = Inr pv1 \<and>
   mapIndex (volumes (plugin snappedWorld)) ''does-not-exist'' = None \<and>
   SetVolumeID plainConverter snappedWorld (Some pv1) ''does-not-exist''
     = (snappedWorld, Returns (None, Some (Errorf ''volume does-not-exist does not exist in the group''))) \<and>
   mapIndex (volumes (plugin snappedWorld)) ''pv-1''
     = Some \<lparr>volName = ''pv-1'', volAZ = ''zone-a'', storageClass = [],
              dataEngine = ''v1'', volSize = zeroQuantity\<rparr> \<and>
   ToUnstructured plainConverter (pv1\<lparr>Name := ''pv-1''\<rparr>) = Inr (Some pv1) \<and>
   nameSurvives plainConverter \<and>
   SetVolumeID plainConverter snappedWorld (Some pv1) ''pv-1''
     = (snappedWorld, Returns (Some (Some pv1), None)) \<and>
   descriptorName plainConverter (Some pv1) = Some ''pv-1''"
proof -
  have h0: "FromUnstructured plainConverter (Some pv1) = Inr pv1"
    by (simp add: plainConverter_def)
  have h1: "mapIndex (volumes (plugin snappedWorld)) ''does-not-exist'' = None"
    by (simp add: snappedWorld_def)
  have h2: "mapIndex (volumes (plugin snappedWorld)) ''pv-1''
     = Some \<lparr>volName = ''pv-1'', volAZ = ''zone-a'', storageClass = [],
              dataEngine = ''v1'', volSize = zeroQuantity\<rparr>"
    by (simp add: snappedWorld_def)
  have h3: "ToUnstructured plainConverter (pv1\<lparr>Name := ''pv-1''\<rparr>) = Inr (Some pv1)"
    by (simp add: plainConverter_def pv1_def)
  from SetVolumeID_lookup[OF h0, of snappedWorld "''does-not-exist''"] h1
  have a: "SetVolumeID plainConverter snappedWorld (Some pv1) ''does-not-exist''
     = (snappedWorld, Returns (None, Some (Errorf ''volume does-not-exist does not exist in the group'')))"
    by simp
  from SetVolumeID_lookup[OF h0, of snappedWorld "''pv-1''"] h2 h3 plainConverter_nameSurvives
  have b: "SetVolumeID plainConverter snappedWorld (Some pv1) ''pv-1''
     = (snappedWorld, Returns (Some (Some pv1), None)) \<and>
   descriptorName plainConverter (Some pv1) = Some ''pv-1''"
    by simp
  from h0 h1 h2 h3 a b plainConverter_nameSurvives show ?thesis by blast
qed

text \<open>
  C5. For a descriptor that converts to a structured volume: when its name or its storage
  class is empty, \<^verbatim>\<open>GetVolumeID\<close> returns the empty identifier and the nil error and the
  world is unchanged, so no record is created. When both are non-empty and the plugin is
  initialised, it returns the descriptor's name and the nil error; the volume map gains a
  record for the name only if it had none, and calling the operation again on the result
  returns the same and changes nothing.
\<close>

theorem GetVolumeID_sentinel_or_register:
  assumes "FromUnstructured conv u = Inr pv"
  shows "(Name pv = [] \<or> SpecStorageClassName pv = [] \<longrightarrow>
            GetVolumeID conv w u = (w, Returns ([], None))) \<and>
         (\<forall>vs. Name pv \<noteq> [] \<and> SpecStorageClassName pv \<noteq> [] \<and> volumes (plugin w) = Some vs \<longrightarrow>
            (\<exists>w'. GetVolumeID conv w u = (w', Returns (Name pv, None)) \<and>
                  w' = w\<lparr>plugin := (plugin w)
                          \<lparr>volumes := Some (case vs (Name pv) of
                                              None \<Rightarrow> vs(Name pv \<mapsto> 
   \<lparr>volName = Name pv, volAZ = [], storageClass = SpecStorageClassName pv, dataEngine = ''v1'',
    volSize = (case mapIndex (SpecCapacity pv) ''storage'' of None \<Rightarrow> zeroQuantity | Some q \<Rightarrow> q)\<rparr>)
                                            | Some v \<Rightarrow> vs)\<rparr>\<rparr> \<and>
                  GetVolumeID conv w' u = (w', Returns (Name pv, None))))"
  using assms
  by (auto simp: GetVolumeID_def split: option.splits)

theorem GetVolumeID_sentinel_or_register_witness:
  "FromUnstructured plainConverter (Some (pv1\<lparr>Name := []\<rparr>)) = Inr (pv1\<lparr>Name := []\<rparr>) \<and>
   GetVolumeID plainConverter readyWorld (Some (pv1\<lparr>Name := []\<rparr>))
     = (readyWorld, Returns ([], None)) \<and>
   FromUnstructured plainConverter (Some (pv1\<lparr>SpecStorageClassName := []\<rparr>))
     = Inr (pv1\<lparr>SpecStorageClassName := []\<rparr>) \<and>
   GetVolumeID plainConverter readyWorld (Some (pv1\<lparr>SpecStorageClassName := []\<rparr>))
     = (readyWorld, Returns ([], None)) \<and>
   FromUnstructured plainConverter (Some pv1) = Inr pv1 \<and>
   Name pv1 \<noteq> [] \<and> SpecStorageClassName pv1 \<noteq> [] \<and>
   volumes (plugin readyWorld) = Some Map.empty \<and>
   GetVolumeID plainConverter readyWorld (Some pv1) = (describedWorld, Returns (''pv-1'', None)) \<and>
   GetVolumeID plainConverter describedWorld (Some pv1)
     = (describedWorld, Returns (''pv-1'', None))"
proof -
  have e1: "FromUnstructured plainConverter (Some (pv1\<lparr>Name := []\<rparr>)) = Inr (pv1\<lparr>Name := []\<rparr>)"
    by (simp add: plainConverter_def)
  have e2: "FromUnstructured plainConverter (Some (pv1\<lparr>SpecStorageClassName := []\<rparr>))
              = Inr (pv1\<lparr>SpecStorageClassName := []\<rparr>)"
    by (simp add: plainConverter_def)
  have h0: "FromUnstructured plainConverter (Some pv1) = Inr pv1"
    by (simp add: plainConverter_def)
  have h1: "Name pv1 = ''pv-1''" and h2: "SpecStorageClassName pv1 = ''fast''"
    and h3: "mapIndex (SpecCapacity pv1) ''storage'' = Some (Quantity 10 ''Gi'')"
    by (simp_all add: pv1_def)
  have h4: "volumes (plugin readyWorld) = Some Map.empty" by (simp add: readyWorld_eq)
  have d: "readyWorld\<lparr>plugin := (plugin readyWorld)
              \<lparr>volumes := Some [''pv-1'' \<mapsto> \<lparr>volName = ''pv-1'', volAZ = [],
                   storageClass = ''fast'', dataEngine = ''v1'',
                   volSize = Quantity 10 ''Gi''\<rparr>]\<rparr>\<rparr> = describedWorld"
    by (simp add: readyWorld_eq describedWorld_def)
  from GetVolumeID_sentinel_or_register[OF e1, of readyWorld]
  have a: "GetVolumeID plainConverter readyWorld (Some (pv1\<lparr>Name := []\<rparr>))
             = (readyWorld, Returns ([], None))"
    by simp
  from GetVolumeID_sentinel_or_register[OF e2, of readyWorld]
  have b: "GetVolumeID plainConverter readyWorld (Some (pv1\<lparr>SpecStorageClassName := []\<rparr>))
             = (readyWorld, Returns ([], None))"
    by simp
  from GetVolumeID_sentinel_or_register[OF h0, of readyWorld] h4
  have c: "GetVolumeID plainConverter readyWorld (Some pv1) = (describedWorld, Returns (''pv-1'', None)) \<and>
           GetVolumeID plainConverter describedWorld (Some pv1)
             = (describedWorld, Returns (''pv-1'', None))"
    by (simp add: h1 h2 h3 d)
  from e1 e2 h0 h4 a b c show ?thesis by (simp add: h1 h2)
qed

text \<open>
  C6. In every world the plugin can reach, once it is initialised: for a descriptor that
  converts to a structured volume with a non-empty name and a non-empty storage class,
  and that converts back, \<^verbatim>\<open>GetVolumeID\<close> returns the descriptor's name, and
  \<^verbatim>\<open>SetVolumeID\<close> with that identifier, on the same descriptor and in the world
  \<^verbatim>\<open>GetVolumeID\<close> left, returns the unstructured form of the unchanged structured
  descriptor; the name read back from it is the original name.
\<close>

theorem identifier_round_trip:
  assumes "reachable conv w" and "volumes (plugin w) = Some vs"
    and "FromUnstructured conv u = Inr pv"
    and "Name pv \<noteq> []" and "SpecStorageClassName pv \<noteq> []"
    and "ToUnstructured conv pv = Inr res" and "nameSurvives conv"
  shows "\<exists>w'. GetVolumeID conv w u = (w', Returns (Name pv, None)) \<and>
              SetVolumeID conv w' u (Name pv) = (w', Returns (Some res, None)) \<and>
              descriptorName conv res = Some (Name pv)"
proof -
  let ?new = "\<lparr>volName = Name pv, volAZ = [],
               storageClass = SpecStorageClassName pv, dataEngine = ''v1'',
               volSize = (case mapIndex (SpecCapacity pv) ''storage'' of
                            None \<Rightarrow> zeroQuantity | Some q \<Rightarrow> q)\<rparr>"
  let ?w' = "w\<lparr>plugin := (plugin w)
                \<lparr>volumes := Some (case vs (Name pv) of
                                    None \<Rightarrow> vs(Name pv \<mapsto> ?new) | Some v \<Rightarrow> vs)\<rparr>\<rparr>"
  have get: "GetVolumeID conv w u = (?w', Returns (Name pv, None))"
    by (rule GetVolumeID_initialised[OF assms(3,4,5,2)])
  have keyed: "volumesKeyedByName (plugin w)"
    by (rule reachable_keyed[OF assms(1)])
  obtain vol where vol: "mapIndex (volumes (plugin ?w')) (Name pv) = Some vol"
    and name: "volName vol = Name pv"
  proof (cases "vs (Name pv)")
    case None
    then show ?thesis using that[of ?new] by simp
  next
    case (Some v)
    then have "mapIndex (volumes (plugin w)) (Name pv) = Some v" using assms(2) by simp
    with keyed have "volName v = Name pv" unfolding volumesKeyedByName_def by blast
    then show ?thesis using that[of v] Some by simp
  qed
  have same: "pv\<lparr>Name := volName vol\<rparr> = pv" using name by simp
  have set: "SetVolumeID conv ?w' u (Name pv) = (?w', Returns (Some res, None))"
    using assms(3,6) vol same by (simp add: SetVolumeID_def)
  have "descriptorName conv res = Some (Name pv)"
    using assms(6,7) unfolding nameSurvives_def by blast
  with get set show ?thesis by blast
qed

theorem identifier_round_trip_witness:
  "reachable plainConverter snappedWorld \<and>
   volumes (plugin snappedWorld)
     = Some [''pv-1'' \<mapsto> \<lparr>volName = ''pv-1'', volAZ = ''zone-a'', storageClass = [],
                            dataEngine = ''v1'', volSize = zeroQuantity\<rparr>] \<and>
   FromUnstructured plainConverter (Some pv1) = Inr pv1 \<and>
   Name pv1 \<noteq> [] \<and> SpecStorageClassName pv1 \<noteq> [] \<and>
   ToUnstructured plainConverter pv1 = Inr (Some pv1) \<and>
   nameSurvives plainConverter \<and>
   (\<exists>w'. GetVolumeID plainConverter snappedWorld (Some pv1) = (w', Returns (''pv-1'', None)) \<and>
         SetVolumeID plainConverter w' (Some pv1) ''pv-1'' = (w', Returns (Some (Some pv1), None)) \<and>
         descriptorName plainConverter (Some pv1) = Some ''pv-1'')"
proof -
  have h1: "volumes (plugin snappedWorld)
     = Some [''pv-1'' \<mapsto> \<lparr>volName = ''pv-1'', volAZ = ''zone-a'', storageClass = [],
                            dataEngine = ''v1'', volSize = zeroQuantity\<rparr>]"
    by (simp add: snappedWorld_def)
  have h2: "FromUnstructured plainConverter (Some pv1) = Inr pv1"
    by (simp add: plainConverter_def)
  have n: "Name pv1 = ''pv-1''" by (simp add: pv1_def)
  have h3: "Name pv1 \<noteq> []" and h4: "SpecStorageClassName pv1 \<noteq> []"
    by (simp_all add: pv1_def)
  have h5: "ToUnstructured plainConverter pv1 = Inr (Some pv1)"
    by (simp add: plainConverter_def)
  from identifier_round_trip[OF snappedWorld_reachable h1 h2 h3 h4 h5 plainConverter_nameSurvives]
  have "\<exists>w'. GetVolumeID plainConverter snappedWorld (Some pv1) = (w', Returns (''pv-1'', None)) \<and>
         SetVolumeID plainConverter w' (Some pv1) ''pv-1'' = (w', Returns (Some (Some pv1), None)) \<and>
         descriptorName plainConverter (Some pv1) = Some ''pv-1''"
    by (simp add: n)
  with snappedWorld_reachable[of plainConverter] h1 h2 h3 h4 h5 plainConverter_nameSurvives
  show ?thesis by blast
qed

section \<open>The stub operations\<close>

text \<open>
  C8. \<^verbatim>\<open>DeleteSnapshot\<close> only acknowledges: for every snapshot id, registered or not,
  it returns the nil error, and the world after the call (the plugin's volume and snapshot
  maps and the requests the control plane has received) is the world before it.
\<close>

theorem DeleteSnapshot_acknowledges:
  "DeleteSnapshot w snapshotID = (w, Returns None)"
  by (simp add: DeleteSnapshot_def)

text \<open>
  C10. \<^verbatim>\<open>CreateVolumeFromSnapshot\<close> reads through its \<open>iops\<close> pointer first. With a
  pointer that is not nil it returns the empty volume identifier and the nil error for
  every input, and the world is unchanged; with the nil pointer it panics.
\<close>

theorem CreateVolumeFromSnapshot_needs_iops:
  "(iops \<noteq> None \<longrightarrow>
      CreateVolumeFromSnapshot w snapshotID volumeType volumeAZ iops = (w, Returns ([], None))) \<and>
   (iops = None \<longrightarrow>
      CreateVolumeFromSnapshot w snapshotID volumeType volumeAZ iops
        = (w, Panics NilPointerDereference))"
  by (auto simp: CreateVolumeFromSnapshot_def)

theorem CreateVolumeFromSnapshot_needs_iops_witness:
  "Some (100 :: 64 word) \<noteq> None \<and>
   CreateVolumeFromSnapshot snappedWorld ''velero-snap-a'' ''longhorn-volume'' ''zone-a'' (Some 100)
     = (snappedWorld, Returns ([], None)) \<and>
   CreateVolumeFromSnapshot snappedWorld ''velero-snap-a'' ''longhorn-volume'' ''zone-a'' None
     = (snappedWorld, Panics NilPointerDereference)"
  using CreateVolumeFromSnapshot_needs_iops
          [of "Some 100" snappedWorld "''velero-snap-a''" "''longhorn-volume''" "''zone-a''"]
        CreateVolumeFromSnapshot_needs_iops
          [of None snappedWorld "''velero-snap-a''" "''longhorn-volume''" "''zone-a''"]
  by simp

end
